theory Spec2Isabelle
  imports Complex_Main
begin

section \<open>The fitness tracker module \<open>modul_training.py\<close>\<close>

text \<open>
  Numbers. The fields of a workout are Python numbers (\<open>int\<close> or \<open>float\<close>) and every
  formula of the module mixes them with float constants. The model computes in exact
  arithmetic over \<^typ>\<open>real\<close>: the rounding error of a float operation, overflow to
  infinity and the \<open>OverflowError\<close> of \<open>**\<close> are not represented. What is represented is
  the structure of each formula, the order of evaluation and every exception the code
  can raise on exact numbers: Python's true division \<open>/\<close> raises \<open>ZeroDivisionError\<close> on a
  zero divisor, for \<open>int\<close> and for \<open>float\<close> alike.
\<close>

subsection \<open>Exceptions and results\<close>

datatype py_error =
    ZeroDivisionError
  | NotImplementedError
  | ValueError
  | TypeError
  | KeyError string
  | IndexError

type_synonym 'a result = "py_error + 'a"

text \<open>Sequencing: the first exception raised is the one that propagates.\<close>

definition bind_result :: "'a result \<Rightarrow> ('a \<Rightarrow> 'b result) \<Rightarrow> 'b result" where
  "bind_result m f = (case m of Inl e \<Rightarrow> Inl e | Inr x \<Rightarrow> f x)"

text \<open>Python's \<open>a / b\<close>.\<close>

definition py_truediv :: "real \<Rightarrow> real \<Rightarrow> real result" where
  "py_truediv a b = (if b = 0 then Inl ZeroDivisionError else Inr (a / b))"

subsection \<open>The class hierarchy\<close>

text \<open>
  An object of \<open>Training\<close> or of one of its three subclasses, with the instance attributes
  its \<open>__init__\<close> stores, in the order of the constructor's parameters:
  \<open>action\<close>, \<open>duration\<close>, \<open>weight\<close>, then \<open>height\<close> for \<open>SportsWalking\<close> and
  \<open>lenght_pool\<close>, \<open>count_pool\<close> for \<open>Swimming\<close>.
\<close>

datatype training =
    Training real real real
  | Running real real real
  | SportsWalking real real real real
  | Swimming real real real real real

fun action :: "training \<Rightarrow> real" where
  "action (Training a d w) = a"
| "action (Running a d w) = a"
| "action (SportsWalking a d w h) = a"
| "action (Swimming a d w l c) = a"

fun duration :: "training \<Rightarrow> real" where
  "duration (Training a d w) = d"
| "duration (Running a d w) = d"
| "duration (SportsWalking a d w h) = d"
| "duration (Swimming a d w l c) = d"

fun weight :: "training \<Rightarrow> real" where
  "weight (Training a d w) = w"
| "weight (Running a d w) = w"
| "weight (SportsWalking a d w h) = w"
| "weight (Swimming a d w l c) = w"

text \<open>\<open>self.__class__.__name__\<close>\<close>

fun class_name :: "training \<Rightarrow> string" where
  "class_name (Training a d w) = ''Training''"
| "class_name (Running a d w) = ''Running''"
| "class_name (SportsWalking a d w h) = ''SportsWalking''"
| "class_name (Swimming a d w l c) = ''Swimming''"

text \<open>
  Class attributes. \<open>LEN_STEP\<close> is looked up through the object: \<open>Swimming\<close> overrides the
  value of the base class, \<open>Running\<close> and \<open>SportsWalking\<close> inherit it.
\<close>

fun LEN_STEP :: "training \<Rightarrow> real" where
  "LEN_STEP (Swimming a d w l c) = 1.38"
| "LEN_STEP t = 0.65"

definition M_IN_KM :: real where
  "M_IN_KM = 1000"

definition H_TO_M :: real where
  "H_TO_M = 60"

definition CALORIES_MEAN_SPEED_MULTIPLIER :: real where
  "CALORIES_MEAN_SPEED_MULTIPLIER = 18"

definition CALORIES_MEAN_SPEED_SHIFT :: real where
  "CALORIES_MEAN_SPEED_SHIFT = 1.79"

definition CALORIES_WEIGHT_MULTIPLIER :: real where
  "CALORIES_WEIGHT_MULTIPLIER = 0.035"

definition CALORIES_WEIGHT_MULTIPLIER2 :: real where
  "CALORIES_WEIGHT_MULTIPLIER2 = 0.029"

definition MTR :: real where
  "MTR = 100"

definition const_cal :: real where
  "const_cal = 1.1"

definition const_cal2 :: real where
  "const_cal2 = 2"

text \<open>
  Rounding to the nearest integer, ties to the even neighbour, and Python's
  \<open>round(x, ndigits)\<close> for \<open>ndigits \<ge> 0\<close> built on it.
\<close>

definition round_half_even :: "real \<Rightarrow> int" where
  "round_half_even x =
     (let f = \<lfloor>x\<rfloor>; r = x - of_int f
      in if r < 1 / 2 then f
         else if 1 / 2 < r then f + 1
         else if even f then f else f + 1)"

definition py_round :: "real \<Rightarrow> nat \<Rightarrow> real" where
  "py_round x ndigits = of_int (round_half_even (x * 10 ^ ndigits)) / 10 ^ ndigits"

text \<open>\<open>TRN_TO_MS = round(1000 / 3600, 3)\<close>, evaluated once in the class body.\<close>

definition TRN_TO_MS :: real where
  "TRN_TO_MS = py_round (1000 / 3600) 3"

subsection \<open>The methods\<close>

text \<open>\<open>Training.get_distance\<close>: \<open>self.action * self.LEN_STEP / self.M_IN_KM\<close>\<close>

definition get_distance :: "training \<Rightarrow> real result" where
  "get_distance t = py_truediv (action t * LEN_STEP t) M_IN_KM"

text \<open>
  \<open>get_mean_speed\<close>: \<open>self.get_distance() / self.duration\<close> in the base class, overridden
  in \<open>Swimming\<close> by \<open>self.lenght_pool * self.count_pool / self.M_IN_KM / self.duration\<close>.
\<close>

fun get_mean_speed :: "training \<Rightarrow> real result" where
  "get_mean_speed (Swimming a d w l c) =
     bind_result (py_truediv (l * c) M_IN_KM) (\<lambda>q. py_truediv q d)"
| "get_mean_speed t =
     bind_result (get_distance t) (\<lambda>km. py_truediv km (duration t))"

text \<open>
  \<open>get_spent_calories\<close>: the base class raises \<open>NotImplementedError\<close>; each subclass
  overrides it. The operands are evaluated left to right, as Python does.
\<close>

fun get_spent_calories :: "training \<Rightarrow> real result" where
  "get_spent_calories (Training a d w) = Inl NotImplementedError"
| "get_spent_calories (Running a d w) =
     bind_result (get_mean_speed (Running a d w)) (\<lambda>ms.
     bind_result (py_truediv
        ((CALORIES_MEAN_SPEED_MULTIPLIER * ms + CALORIES_MEAN_SPEED_SHIFT) * w) M_IN_KM) (\<lambda>q.
     Inr (q * d * H_TO_M)))"
| "get_spent_calories (SportsWalking a d w h) =
     bind_result (get_mean_speed (SportsWalking a d w h)) (\<lambda>ms.
     bind_result (py_truediv h MTR) (\<lambda>hm.
     bind_result (py_truediv ((ms * TRN_TO_MS) ^ 2) hm) (\<lambda>q.
     Inr ((CALORIES_WEIGHT_MULTIPLIER * w + q * (CALORIES_WEIGHT_MULTIPLIER2 * w))
          * (d * H_TO_M)))))"
| "get_spent_calories (Swimming a d w l c) =
     bind_result (get_mean_speed (Swimming a d w l c)) (\<lambda>ms.
     Inr ((ms + const_cal) * const_cal2 * w * d))"

subsection \<open>The dispatcher \<open>read_package\<close>\<close>

text \<open>
  The classes stored in the dictionary \<open>activites\<close>, and the call \<open>cls(*data)\<close>: the
  constructor binds the positional data to its parameters and raises \<open>TypeError\<close> when
  the number of values is not the number of parameters.
\<close>

datatype training_class = SwimmingClass | RunningClass | SportsWalkingClass

fun construct :: "training_class \<Rightarrow> real list \<Rightarrow> training result" where
  "construct RunningClass [a, d, w] = Inr (Running a d w)"
| "construct SportsWalkingClass [a, d, w, h] = Inr (SportsWalking a d w h)"
| "construct SwimmingClass [a, d, w, l, c] = Inr (Swimming a d w l c)"
| "construct cls data = Inl TypeError"

definition activites :: "string \<rightharpoonup> training_class" where
  "activites = map_of
     [(''SWM'', SwimmingClass), (''RUN'', RunningClass), (''WLK'', SportsWalkingClass)]"

definition read_package :: "string \<Rightarrow> real list \<Rightarrow> training result" where
  "read_package workout_type data =
     (case activites workout_type of
        None \<Rightarrow> Inl ValueError
      | Some cls \<Rightarrow> construct cls data)"

subsection \<open>The message of a workout\<close>

text \<open>
  Strings are lists of bytes: a Python string is stored as its UTF-8 encoding, the
  Cyrillic letters of the template as two bytes each. The field \<open>duration\<close> of the
  dataclass is called \<open>info_duration\<close> here, apart from the attribute \<open>duration\<close> of a
  workout.
\<close>

record InfoMessage =
  training_type :: string
  info_duration :: real
  distance :: real
  speed :: real
  calories :: real
  message :: string

text \<open>The default value of the field \<open>message\<close>.\<close>

definition default_message :: string where
  "default_message =
     [CHR 0xD0, CHR 0xA2, CHR 0xD0, CHR 0xB8, CHR 0xD0, CHR 0xBF] @ '' '' @
     [CHR 0xD1, CHR 0x82, CHR 0xD1, CHR 0x80, CHR 0xD0, CHR 0xB5, CHR 0xD0, CHR 0xBD,
      CHR 0xD0, CHR 0xB8, CHR 0xD1, CHR 0x80, CHR 0xD0, CHR 0xBE, CHR 0xD0, CHR 0xB2,
      CHR 0xD0, CHR 0xBA, CHR 0xD0, CHR 0xB8] @
     '' {self.training_type}; '' @
     [CHR 0xD0, CHR 0x94, CHR 0xD0, CHR 0xBB, CHR 0xD0, CHR 0xB8, CHR 0xD1, CHR 0x82,
      CHR 0xD0, CHR 0xB5, CHR 0xD0, CHR 0xBB, CHR 0xD1, CHR 0x8C, CHR 0xD0, CHR 0xBD,
      CHR 0xD0, CHR 0xBE, CHR 0xD1, CHR 0x81, CHR 0xD1, CHR 0x82, CHR 0xD1, CHR 0x8C] @
     '': {self.duration:.3f} '' @
     [CHR 0xD1, CHR 0x87] @ ''.; '' @
     [CHR 0xD0, CHR 0x94, CHR 0xD0, CHR 0xB8, CHR 0xD1, CHR 0x81, CHR 0xD1, CHR 0x82,
      CHR 0xD0, CHR 0xB0, CHR 0xD0, CHR 0xBD, CHR 0xD1, CHR 0x86, CHR 0xD0, CHR 0xB8,
      CHR 0xD1, CHR 0x8F] @
     '': {self.distance:.3f} '' @
     [CHR 0xD0, CHR 0xBA, CHR 0xD0, CHR 0xBC] @ ''; '' @
     [CHR 0xD0, CHR 0xA1, CHR 0xD1, CHR 0x80] @ ''. '' @
     [CHR 0xD1, CHR 0x81, CHR 0xD0, CHR 0xBA, CHR 0xD0, CHR 0xBE, CHR 0xD1, CHR 0x80,
      CHR 0xD0, CHR 0xBE, CHR 0xD1, CHR 0x81, CHR 0xD1, CHR 0x82, CHR 0xD1, CHR 0x8C] @
     '': {self.speed:.3f} '' @
     [CHR 0xD0, CHR 0xBA, CHR 0xD0, CHR 0xBC] @ ''/'' @ [CHR 0xD1, CHR 0x87] @ ''; '' @
     [CHR 0xD0, CHR 0x9F, CHR 0xD0, CHR 0xBE, CHR 0xD1, CHR 0x82, CHR 0xD1, CHR 0x80,
      CHR 0xD0, CHR 0xB0, CHR 0xD1, CHR 0x87, CHR 0xD0, CHR 0xB5, CHR 0xD0, CHR 0xBD,
      CHR 0xD0, CHR 0xBE] @ '' '' @
     [CHR 0xD0, CHR 0xBA, CHR 0xD0, CHR 0xBA, CHR 0xD0, CHR 0xB0, CHR 0xD0, CHR 0xBB] @
     '': {self.calories:.3f}.''"

text \<open>The constructor the dataclass generates, called with five arguments.\<close>

definition new_InfoMessage :: "string \<Rightarrow> real \<Rightarrow> real \<Rightarrow> real \<Rightarrow> real \<Rightarrow> InfoMessage" where
  "new_InfoMessage t d km s c =
     \<lparr>training_type = t, info_duration = d, distance = km, speed = s, calories = c,
      message = default_message\<rparr>"

text \<open>
  \<open>Training.show_training_info\<close>: the arguments of \<open>InfoMessage(...)\<close> are evaluated in
  order, so an exception of \<open>get_mean_speed\<close> comes before one of \<open>get_spent_calories\<close>.
\<close>

definition show_training_info :: "training \<Rightarrow> InfoMessage result" where
  "show_training_info t =
     bind_result (get_distance t) (\<lambda>km.
     bind_result (get_mean_speed t) (\<lambda>ms.
     bind_result (get_spent_calories t) (\<lambda>cal.
     Inr (new_InfoMessage (class_name t) (duration t) km ms cal))))"

subsection \<open>Formatting\<close>

text \<open>Decimal digits of a natural number, most significant first.\<close>

fun digits_of :: "nat \<Rightarrow> string" where
  "digits_of n =
     (if n < 10 then [''0123456789'' ! n]
      else digits_of (n div 10) @ [''0123456789'' ! (n mod 10)])"

declare digits_of.simps [simp del]

text \<open>
  \<open>format(x, '.3f')\<close>: the value rounded to three decimals (ties to even), the sign of a
  negative value kept, the fraction padded to three digits.
\<close>

definition format_3f :: "real \<Rightarrow> string" where
  "format_3f x =
     (let n = nat (round_half_even (\<bar>x\<bar> * 1000));
          frac = n mod 1000
      in (if x < 0 then ''-'' else []) @ digits_of (n div 1000) @ ''.'' @
         [''0123456789'' ! (frac div 100), ''0123456789'' ! (frac div 10 mod 10),
          ''0123456789'' ! (frac mod 10)])"

text \<open>
  The values \<open>asdict\<close> hands to \<open>str.format\<close> as keyword arguments: strings and numbers,
  by field name, in the order of the fields.
\<close>

datatype py_value = Str string | Num real

definition asdict :: "InfoMessage \<Rightarrow> (string \<times> py_value) list" where
  "asdict m =
     [(''training_type'', Str (training_type m)),
      (''duration'', Num (info_duration m)),
      (''distance'', Num (distance m)),
      (''speed'', Num (speed m)),
      (''calories'', Num (calories m)),
      (''message'', Str (message m))]"

text \<open>
  The part of \<open>str.format\<close> that a template like the one above exercises, called with
  keyword arguments only. A replacement field \<open>{name:spec}\<close> is split at its first colon;
  the argument name is the part of \<open>name\<close> before the first \<open>.\<close> or \<open>[\<close>. An empty or
  numeric argument name asks for a positional argument, of which there is none
  (\<open>IndexError\<close>); any other name is looked up among the keyword arguments
  (\<open>KeyError\<close> with that name when it is missing). The specifiers handled are the empty
  one on a string and \<open>.3f\<close> on a number (\<open>ValueError\<close> on a string). Conversions
  (\<open>!r\<close>), nested fields, attribute or index access on a value that was found and the
  other specifiers do not occur on any path the default template takes; the model
  answers \<open>Unmodelled\<close> there instead of guessing.
\<close>

datatype fmt_error = Raised py_error | Unmodelled

definition split_at_first :: "(char \<Rightarrow> bool) \<Rightarrow> string \<Rightarrow> string \<times> string" where
  "split_at_first P s = (takeWhile (\<lambda>c. \<not> P c) s, dropWhile (\<lambda>c. \<not> P c) s)"

definition is_digit :: "char \<Rightarrow> bool" where
  "is_digit c = (c \<in> set ''0123456789'')"

definition format_value :: "py_value \<Rightarrow> string \<Rightarrow> fmt_error + string" where
  "format_value v spec =
     (case v of
        Str s \<Rightarrow> if spec = [] then Inr s
                 else if spec = ''.3f'' then Inl (Raised ValueError)
                 else Inl Unmodelled
      | Num x \<Rightarrow> if spec = ''.3f'' then Inr (format_3f x) else Inl Unmodelled)"

definition render_field :: "(string \<times> py_value) list \<Rightarrow> string \<Rightarrow> fmt_error + string" where
  "render_field kwargs field =
     (let (field_name, rest) = split_at_first (\<lambda>c. c = CHR '':'' \<or> c = CHR ''!'') field;
          (arg_name, access) = split_at_first (\<lambda>c. c = CHR ''.'' \<or> c = CHR ''['') field_name
      in if list_all is_digit arg_name then Inl (Raised IndexError)
         else case map_of kwargs arg_name of
                None \<Rightarrow> Inl (Raised (KeyError arg_name))
              | Some v \<Rightarrow>
                  if access \<noteq> [] then Inl Unmodelled
                  else if rest = [] then format_value v []
                  else if hd rest = CHR '':'' then format_value v (tl rest)
                  else Inl Unmodelled)"

text \<open>
  The scan of the template, left to right. The second argument is \<open>None\<close> in literal
  text and holds the characters of the field read so far, last first, inside braces.
  \<open>{{\<close> and \<open>}}\<close> stand for one brace; a single \<open>}\<close> in literal text and a field that is
  not closed raise \<open>ValueError\<close>.
\<close>

fun format_scan :: "(string \<times> py_value) list \<Rightarrow> string option \<Rightarrow> string \<Rightarrow> fmt_error + string" where
  "format_scan kwargs None [] = Inr []"
| "format_scan kwargs None [c] =
     (if c = CHR ''{'' \<or> c = CHR ''}'' then Inl (Raised ValueError) else Inr [c])"
| "format_scan kwargs None (c # c' # cs) =
     (if c = CHR ''{'' then
        (if c' = CHR ''{'' then map_sum id ((#) c) (format_scan kwargs None cs)
         else format_scan kwargs (Some []) (c' # cs))
      else if c = CHR ''}'' then
        (if c' = CHR ''}'' then map_sum id ((#) c) (format_scan kwargs None cs)
         else Inl (Raised ValueError))
      else map_sum id ((#) c) (format_scan kwargs None (c' # cs)))"
| "format_scan kwargs (Some field) [] = Inl (Raised ValueError)"
| "format_scan kwargs (Some field) (c # cs) =
     (if c = CHR ''}'' then
        (case render_field kwargs (rev field) of
           Inl e \<Rightarrow> Inl e
         | Inr s \<Rightarrow> map_sum id ((@) s) (format_scan kwargs None cs))
      else if c = CHR ''{'' then Inl Unmodelled
      else format_scan kwargs (Some (c # field)) cs)"

definition py_format :: "string \<Rightarrow> (string \<times> py_value) list \<Rightarrow> fmt_error + string" where
  "py_format template kwargs = format_scan kwargs None template"

text \<open>\<open>InfoMessage.get_message\<close>: \<open>self.message.format(**asdict(self))\<close>\<close>

definition get_message :: "InfoMessage \<Rightarrow> fmt_error + string" where
  "get_message m = py_format (message m) (asdict m)"

section \<open>Properties\<close>

subsection \<open>Auxiliary facts\<close>

lemma bind_result_simps [simp]:
  "bind_result (Inl e) f = Inl e" "bind_result (Inr x) f = f x"
  by (simp_all add: bind_result_def)

text \<open>The numeric class attributes, for unfolding.\<close>

lemmas class_constants =
  M_IN_KM_def H_TO_M_def CALORIES_MEAN_SPEED_MULTIPLIER_def CALORIES_MEAN_SPEED_SHIFT_def
  CALORIES_WEIGHT_MULTIPLIER_def CALORIES_WEIGHT_MULTIPLIER2_def MTR_def const_cal_def
  const_cal2_def

text \<open>\<open>1000 / 3600\<close> is \<open>0.2777...\<close>; no tie arises in rounding it.\<close>

lemma TRN_TO_MS_value: "TRN_TO_MS = 0.278"
  by (simp add: TRN_TO_MS_def py_round_def round_half_even_def Let_def)

text \<open>The division by \<open>M_IN_KM\<close> never fails: the distance is always returned.\<close>

lemma get_distance_value: "get_distance t = Inr (action t * LEN_STEP t / 1000)"
  by (simp add: get_distance_def py_truediv_def M_IN_KM_def)

text \<open>The mean speed, by the value of \<open>duration\<close>.\<close>

lemma get_mean_speed_zero: "duration t = 0 \<Longrightarrow> get_mean_speed t = Inl ZeroDivisionError"
  by (cases t) (simp_all add: get_distance_value py_truediv_def M_IN_KM_def)

lemma get_mean_speed_generic:
  "d \<noteq> 0 \<Longrightarrow> get_mean_speed (Training a d w) = Inr (a * 0.65 / 1000 / d)"
  "d \<noteq> 0 \<Longrightarrow> get_mean_speed (Running a d w) = Inr (a * 0.65 / 1000 / d)"
  "d \<noteq> 0 \<Longrightarrow> get_mean_speed (SportsWalking a d w h) = Inr (a * 0.65 / 1000 / d)"
  by (simp_all add: get_distance_value py_truediv_def)

lemma get_mean_speed_swimming:
  "d \<noteq> 0 \<Longrightarrow> get_mean_speed (Swimming a d w l c) = Inr (l * c / 1000 / d)"
  by (simp add: py_truediv_def M_IN_KM_def)

declare get_mean_speed.simps [simp del]

text \<open>The calories of the two step-based subclasses in closed form.\<close>

lemma running_calories_value:
  assumes "d \<noteq> 0"
  shows "get_spent_calories (Running a d w) =
           Inr ((18 * (a * 0.65 / 1000 / d) + 1.79) * w / 1000 * d * 60)"
  using assms
  by (simp add: get_spent_calories.simps get_mean_speed_generic py_truediv_def M_IN_KM_def H_TO_M_def
      CALORIES_MEAN_SPEED_MULTIPLIER_def CALORIES_MEAN_SPEED_SHIFT_def)

lemma walking_calories_value:
  assumes "d \<noteq> 0" and "h \<noteq> 0"
  shows "get_spent_calories (SportsWalking a d w h) =
           Inr ((0.035 * w + (a * 0.65 / 1000 / d * 0.278)\<^sup>2 / (h / 100) * 0.029 * w) * (d * 60))"
  using assms
  by (simp add: get_spent_calories.simps get_mean_speed_generic py_truediv_def MTR_def H_TO_M_def TRN_TO_MS_value
      CALORIES_WEIGHT_MULTIPLIER_def CALORIES_WEIGHT_MULTIPLIER2_def)

declare get_spent_calories.simps [simp del]

subsection \<open>Distance, mean speed and calories\<close>

text \<open>
  Claim C1. For a workout of each of the three subclasses \<open>get_distance\<close> returns, without
  any error, \<open>action * LEN_STEP / 1000\<close> kilometres, where the step length is 0.65 for
  \<open>Running\<close> and \<open>SportsWalking\<close> and 1.38 for \<open>Swimming\<close>.
\<close>

theorem distance_formula:
  "get_distance (Running a d w) = Inr (a * 0.65 / 1000) \<and>
   get_distance (SportsWalking a d w h) = Inr (a * 0.65 / 1000) \<and>
   get_distance (Swimming a d w l c) = Inr (a * 1.38 / 1000)"
  by (simp add: get_distance_value)

text \<open>
  Claim C2. When the duration is not zero, \<open>get_mean_speed\<close> of a \<open>Running\<close> or
  \<open>SportsWalking\<close> workout is the value of \<open>get_distance\<close> divided by the duration, and
  that of a \<open>Swimming\<close> workout is \<open>lenght_pool * count_pool / 1000 / duration\<close>, in which
  neither the action count nor the step length occurs.
\<close>

theorem mean_speed_formula:
  assumes "d \<noteq> 0"
  shows "(\<exists>km. get_distance (Running a d w) = Inr km \<and>
              get_mean_speed (Running a d w) = Inr (km / d)) \<and>
         (\<exists>km. get_distance (SportsWalking a d w h) = Inr km \<and>
              get_mean_speed (SportsWalking a d w h) = Inr (km / d)) \<and>
         get_mean_speed (Swimming a' d w l c) = Inr (l * c / 1000 / d)"
proof (intro conjI)
  show "\<exists>km. get_distance (Running a d w) = Inr km \<and>
             get_mean_speed (Running a d w) = Inr (km / d)"
    using assms by (intro exI [of _ "a * 0.65 / 1000"]) (simp add: get_distance_value get_mean_speed_generic)
  show "\<exists>km. get_distance (SportsWalking a d w h) = Inr km \<and>
             get_mean_speed (SportsWalking a d w h) = Inr (km / d)"
    using assms by (intro exI [of _ "a * 0.65 / 1000"]) (simp add: get_distance_value get_mean_speed_generic)
  show "get_mean_speed (Swimming a' d w l c) = Inr (l * c / 1000 / d)"
    using assms by (rule get_mean_speed_swimming)
qed

theorem mean_speed_formula_witness:
  "(1::real) \<noteq> 0 \<and>
   get_mean_speed (Running 15000 1 75) = Inr 9.75 \<and>
   get_mean_speed (SportsWalking 15000 1 75 180) = Inr 9.75 \<and>
   get_mean_speed (Swimming 720 1 75 25 40) = Inr 1"
proof -
  have d: "(1::real) \<noteq> 0" by simp
  note f = mean_speed_formula [OF d, of 15000 75 180 720 25 40]
  from f obtain km where "get_distance (Running 15000 1 75) = Inr km"
    and r: "get_mean_speed (Running 15000 1 75) = Inr (km / 1)" by blast
  then have "get_mean_speed (Running 15000 1 75) = Inr 9.75"
    by (simp add: get_distance_value)
  moreover from f obtain km' where "get_distance (SportsWalking 15000 1 75 180) = Inr km'"
    and "get_mean_speed (SportsWalking 15000 1 75 180) = Inr (km' / 1)" by blast
  then have "get_mean_speed (SportsWalking 15000 1 75 180) = Inr 9.75"
    by (simp add: get_distance_value)
  moreover from f have "get_mean_speed (Swimming 720 1 75 25 40) = Inr 1" by simp
  ultimately show ?thesis by simp
qed

text \<open>
  Claim C3. When the duration is not zero, \<open>get_spent_calories\<close> of a \<open>Running\<close> workout
  is \<open>(18 * ms + 1.79) * weight / 1000 * duration * 60\<close>, where \<open>ms\<close> is the value
  \<open>get_mean_speed\<close> returns.
\<close>

theorem running_calories_formula:
  assumes "d \<noteq> 0"
  shows "\<exists>ms. get_mean_speed (Running a d w) = Inr ms \<and>
              get_spent_calories (Running a d w) = Inr ((18 * ms + 1.79) * w / 1000 * d * 60)"
  using assms
  by (intro exI [of _ "a * 0.65 / 1000 / d"])
     (simp only: get_mean_speed_generic running_calories_value simp_thms)

theorem running_calories_formula_witness:
  "(1::real) \<noteq> 0 \<and> get_spent_calories (Running 15000 1 75) = Inr 797.805"
proof -
  have "(1::real) \<noteq> 0" by simp
  from running_calories_formula [OF this, of 15000 75]
  obtain ms where "get_mean_speed (Running 15000 1 75) = Inr ms"
    and "get_spent_calories (Running 15000 1 75) = Inr ((18 * ms + 1.79) * 75 / 1000 * 1 * 60)"
    by blast
  moreover have "get_mean_speed (Running 15000 1 75) = Inr 9.75"
    by (simp add: get_mean_speed_generic)
  ultimately have "get_spent_calories (Running 15000 1 75) =
      Inr ((18 * 9.75 + 1.79) * 75 / 1000 * 1 * 60)" by simp
  then show ?thesis by simp
qed

text \<open>
  Claim C4. The constant \<open>TRN_TO_MS\<close> is \<open>1000 / 3600\<close> rounded to three decimals, which is
  0.278. When neither the duration nor the height (in centimetres) is zero,
  \<open>get_spent_calories\<close> of a \<open>SportsWalking\<close> workout is
  \<open>(0.035 * weight + (ms * 0.278)\<^sup>2 / (height / 100) * 0.029 * weight) * (duration * 60)\<close>,
  where \<open>ms\<close> is the value \<open>get_mean_speed\<close> returns.
\<close>

theorem walking_calories_formula:
  assumes "d \<noteq> 0" and "h \<noteq> 0"
  shows "TRN_TO_MS = 0.278 \<and> py_round (1000 / 3600) 3 = 0.278 \<and>
         (\<exists>ms. get_mean_speed (SportsWalking a d w h) = Inr ms \<and>
              get_spent_calories (SportsWalking a d w h) =
                Inr ((0.035 * w + (ms * 0.278)\<^sup>2 / (h / 100) * 0.029 * w) * (d * 60)))"
proof (intro conjI)
  show "TRN_TO_MS = 0.278"
    by (rule TRN_TO_MS_value)
  show "py_round (1000 / 3600) 3 = 0.278"
    using TRN_TO_MS_value by (simp only: TRN_TO_MS_def)
  show "\<exists>ms. get_mean_speed (SportsWalking a d w h) = Inr ms \<and>
             get_spent_calories (SportsWalking a d w h) =
               Inr ((0.035 * w + (ms * 0.278)\<^sup>2 / (h / 100) * 0.029 * w) * (d * 60))"
    using assms
    by (intro exI [of _ "a * 0.65 / 1000 / d"])
       (simp only: get_mean_speed_generic walking_calories_value simp_thms)
qed

theorem walking_calories_formula_witness:
  "(1::real) \<noteq> 0 \<and> (180::real) \<noteq> 0 \<and>
   get_spent_calories (SportsWalking 9000 1 75 180) = Inr (13970069901 / 40000000)"
proof -
  have d: "(1::real) \<noteq> 0" and h: "(180::real) \<noteq> 0" by simp_all
  from walking_calories_formula [OF d h, of 9000 75]
  obtain ms where "get_mean_speed (SportsWalking 9000 1 75 180) = Inr ms"
    and "get_spent_calories (SportsWalking 9000 1 75 180) =
           Inr ((0.035 * 75 + (ms * 0.278)\<^sup>2 / (180 / 100) * 0.029 * 75) * (1 * 60))"
    by blast
  moreover have "get_mean_speed (SportsWalking 9000 1 75 180) = Inr 5.85"
    by (simp add: get_mean_speed_generic)
  ultimately have "get_spent_calories (SportsWalking 9000 1 75 180) =
      Inr ((0.035 * 75 + (5.85 * 0.278)\<^sup>2 / (180 / 100) * 0.029 * 75) * (1 * 60))" by simp
  then show ?thesis by (simp add: power2_eq_square)
qed

subsection \<open>The dispatcher\<close>

text \<open>A recognised code never yields the error of an unknown code, whatever the data.\<close>

lemma construct_not_ValueError: "construct cls data \<noteq> Inl ValueError"
  by (cases "(cls, data)" rule: construct.cases) simp_all

lemma read_package_known:
  "read_package ''SWM'' data = construct SwimmingClass data"
  "read_package ''RUN'' data = construct RunningClass data"
  "read_package ''WLK'' data = construct SportsWalkingClass data"
  by (simp_all add: read_package_def activites_def)

lemma read_package_known_not_ValueError:
  "workout_type \<in> {''SWM'', ''RUN'', ''WLK''} \<Longrightarrow>
     read_package workout_type data \<noteq> Inl ValueError"
  by (auto simp add: read_package_known construct_not_ValueError)

text \<open>
  Claim C5. For a workout code other than \<open>SWM\<close>, \<open>RUN\<close> and \<open>WLK\<close>, \<open>read_package\<close> raises
  \<open>ValueError\<close> whatever the data, and returns no workout. For each of the three codes it
  returns the object of the matching class built from the positional data: three values
  for \<open>RUN\<close>, four for \<open>WLK\<close>, five for \<open>SWM\<close>.
\<close>

theorem read_package_dispatch:
  "(workout_type \<notin> {''SWM'', ''RUN'', ''WLK''} \<longrightarrow>
      read_package workout_type data = Inl ValueError) \<and>
   read_package ''RUN'' [a, d, w] = Inr (Running a d w) \<and>
   read_package ''WLK'' [a, d, w, h] = Inr (SportsWalking a d w h) \<and>
   read_package ''SWM'' [a, d, w, l, c] = Inr (Swimming a d w l c)"
  by (simp add: read_package_def activites_def)

theorem read_package_dispatch_witness:
  "''XYZ'' \<notin> {''SWM'', ''RUN'', ''WLK''} \<and> read_package ''XYZ'' [1, 1, 1] = Inl ValueError"
  using read_package_dispatch [of "''XYZ''" "[1, 1, 1]"] by simp

subsection \<open>The rendered message\<close>

text \<open>
  Claim C6. The claim is that the rendered report of a workout is one line with the class
  name and the duration, distance, mean speed and calories to three decimals. The
  template asks for that, but it names its fields \<open>self.training_type\<close>,
  \<open>self.duration\<close>, ... while \<open>get_message\<close> passes the fields of the message as keyword
  arguments \<open>training_type\<close>, \<open>duration\<close>, ...: no argument is called \<open>self\<close>, and the
  first replacement field raises \<open>KeyError\<close>. So for the workout of the module's own
  sample data, and for every message built with the default template, rendering fails
  and no line is produced.
\<close>

theorem get_message_raises_KeyError:
  "show_training_info (Running 15000 1 75) =
     Inr (new_InfoMessage ''Running'' 1 9.75 9.75 797.805) \<and>
   get_message (new_InfoMessage t d k s c) = Inl (Raised (KeyError ''self''))"
  by (simp add: get_message_def new_InfoMessage_def py_format_def default_message_def
      asdict_def render_field_def split_at_first_def is_digit_def show_training_info_def
      get_distance_value get_mean_speed_generic running_calories_value)

subsection \<open>The running scenario\<close>

text \<open>
  Claim C7, as stated: for \<open>Running(15000, 1, 75)\<close> the calories round to 798.929. They
  do not: the value is 1.124 lower and prints as another number.
\<close>

theorem running_scenario_counterexample:
  "map_sum id format_3f (get_spent_calories (Running 15000 1 75)) \<noteq> Inr ''798.929'' \<and>
   get_spent_calories (Running 15000 1 75) = Inr (798.929 - 1.124)"
  by (simp add: running_calories_value format_3f_def round_half_even_def Let_def
      digits_of.simps)

text \<open>
  Claim C7, amended. For \<open>Running(15000, 1, 75)\<close> the distance is 9.75 km and prints as
  \<open>9.750\<close>, the mean speed is 9.75 km/h and prints as \<open>9.750\<close>, and the calories are
  \<open>(18 * 9.75 + 1.79) * 75 / 1000 * 1 * 60 = 797.805\<close>, printed as \<open>797.805\<close>.
\<close>

theorem running_scenario:
  "get_distance (Running 15000 1 75) = Inr 9.75 \<and>
   get_mean_speed (Running 15000 1 75) = Inr 9.75 \<and>
   get_spent_calories (Running 15000 1 75) = Inr 797.805 \<and>
   (18 * 9.75 + 1.79) * 75 / 1000 * 1 * 60 = (797.805 :: real) \<and>
   format_3f 9.75 = ''9.750'' \<and> format_3f 797.805 = ''797.805''"
  by (simp add: get_distance_value get_mean_speed_generic running_calories_value
      format_3f_def round_half_even_def Let_def digits_of.simps)

subsection \<open>Swimming: two independent formulas\<close>

text \<open>
  Claim C8. Two \<open>Swimming\<close> workouts that differ only in the pool length or the lap count
  have the same distance, while their mean speeds can differ (25 m against 50 m pools,
  40 against 20 laps); two that differ only in the action count have the same mean speed.
\<close>

theorem swimming_independent_formulas:
  "get_distance (Swimming a d w l c) = get_distance (Swimming a d w l' c') \<and>
   get_mean_speed (Swimming a d w l c) = get_mean_speed (Swimming a' d w l c) \<and>
   get_mean_speed (Swimming 720 1 80 25 40) \<noteq> get_mean_speed (Swimming 720 1 80 50 40) \<and>
   get_mean_speed (Swimming 720 1 80 25 40) \<noteq> get_mean_speed (Swimming 720 1 80 25 20)"
  by (simp add: get_distance_value get_mean_speed.simps py_truediv_def M_IN_KM_def)

subsection \<open>Division by zero\<close>

lemma get_spent_calories_height_zero:
  "get_spent_calories (SportsWalking a d w 0) = Inl ZeroDivisionError"
  by (cases "d = 0")
     (simp_all add: get_spent_calories.simps get_mean_speed_zero get_mean_speed_generic
        py_truediv_def MTR_def)

text \<open>
  Claim C9. Nothing checks the duration or the height. The dispatcher builds a workout
  with a zero duration or a zero height as it builds any other; for a workout of any
  class with duration zero \<open>get_mean_speed\<close> raises \<open>ZeroDivisionError\<close>, for a
  \<open>SportsWalking\<close> workout with height zero \<open>get_spent_calories\<close> raises it, and in both
  cases the exception leaves \<open>show_training_info\<close> unhandled.
\<close>

theorem division_by_zero_unguarded:
  "(duration t = 0 \<longrightarrow>
      get_mean_speed t = Inl ZeroDivisionError \<and>
      show_training_info t = Inl ZeroDivisionError) \<and>
   get_spent_calories (SportsWalking a d w 0) = Inl ZeroDivisionError \<and>
   show_training_info (SportsWalking a d w 0) = Inl ZeroDivisionError \<and>
   read_package ''RUN'' [a, 0, w] = Inr (Running a 0 w) \<and>
   read_package ''WLK'' [a, d, w, 0] = Inr (SportsWalking a d w 0)"
  by (cases "d = 0")
     (simp_all add: show_training_info_def get_distance_value get_mean_speed_zero
        get_spent_calories_height_zero get_mean_speed_generic read_package_def activites_def)

theorem division_by_zero_unguarded_witness:
  "duration (Swimming 720 0 80 25 40) = 0 \<and>
   get_mean_speed (Swimming 720 0 80 25 40) = Inl ZeroDivisionError \<and>
   show_training_info (Swimming 720 0 80 25 40) = Inl ZeroDivisionError"
  using division_by_zero_unguarded [of "Swimming 720 0 80 25 40"] by simp

subsection \<open>The base class\<close>

text \<open>
  Claim C10, as stated: \<open>show_training_info\<close> on an object of the base class fails with
  \<open>NotImplementedError\<close>. With a zero duration it does not get that far: the mean speed
  is computed before the calories and raises \<open>ZeroDivisionError\<close>.
\<close>

theorem base_summary_counterexample:
  "show_training_info (Training 15000 0 75) = Inl ZeroDivisionError \<and>
   show_training_info (Training 15000 0 75) \<noteq> Inl NotImplementedError"
  by (simp add: show_training_info_def get_distance_value get_mean_speed_zero)

text \<open>
  Claim C10, amended. On every object of the base class \<open>get_spent_calories\<close> raises
  \<open>NotImplementedError\<close>. \<open>show_training_info\<close> on such an object never returns a message:
  it fails with \<open>NotImplementedError\<close> when the duration is not zero and with the
  \<open>ZeroDivisionError\<close> of \<open>get_mean_speed\<close> when it is.
\<close>

theorem base_class_never_summarises:
  "get_spent_calories (Training a d w) = Inl NotImplementedError \<and>
   show_training_info (Training a d w) =
     Inl (if d = 0 then ZeroDivisionError else NotImplementedError) \<and>
   isl (show_training_info (Training a d w))"
  by (simp add: show_training_info_def get_distance_value get_mean_speed_zero
      get_mean_speed_generic get_spent_calories.simps)

end
